theory Spec2Isabelle
  imports Main
begin

section \<open>Values, errors and Python string helpers\<close>

text \<open>
  The design values that \<^verbatim>\<open>design.py\<close> handles: YAML scalars, lists, dicts
  (insertion ordered, keys are strings), Django model instances and the builder's own
  \<^verbatim>\<open>ModelInstance\<close> nodes. A Django model instance carries its class name,
  its primary key (\<open>None\<close> until it is saved), its field values and its custom field
  data (\<^verbatim>\<open>instance.cf\<close>). A \<^verbatim>\<open>ModelInstance\<close> that occurs as a value
  is kept as what the source reads from it, its \<^verbatim>\<open>.instance\<close>.
  \<open>VRef\<close> is a reference to a mutable list or dict of the object store of
  section \<open>resolve_values on an explicit object store\<close>.
\<close>

datatype val =
    VNone
  | VBool bool
  | VInt int
  | VStr string
  | VList "val list"
  | VDict "(string \<times> val) list"
  | VModel string "nat option" "(string \<times> val) list" "(string \<times> val) list"
  | VModelInstance val
  | VRef nat

text \<open>The messages of \<^verbatim>\<open>errors.DesignImplementationError\<close>, one constructor per raise site.\<close>

datatype reason =
    EmptyDesign
  | UnknownModelKey string
  | UnknownAttributeExtension string
  | CannotHandleReturnType
  | OnlyOneAction string string
  | UnknownAction string
  | NotAProperty string
  | NoMatch
  | UnknownDatabaseAction string
  | ConstructorTypeError
  | ExpectedExactlyOne string
  | CouldNotFind string

datatype error =
    DesignImplementationError reason
  | DesignValidationError
  | DoesNotExistError
  | MultipleObjectsReturnedError
  | ObjectDoesNotExist
  | MultipleObjectsReturned
  | ValidationError
  | ValueError
  | KeyError
  | IndexError
  | TypeError
  | AttributeError
  | ExtensionError string

text \<open>\<^verbatim>\<open>s.startswith("!")\<close>\<close>

fun startswith_bang :: "string \<Rightarrow> bool" where
  "startswith_bang [] = False"
| "startswith_bang (c # cs) = (c = CHR ''!'')"

text \<open>\<^verbatim>\<open>s.lstrip("!")\<close> removes every leading \<^verbatim>\<open>!\<close>.\<close>

definition lstrip_bang :: "string \<Rightarrow> string" where
  "lstrip_bang s = dropWhile (\<lambda>c. c = CHR ''!'') s"

text \<open>\<^verbatim>\<open>s.split(":", 1)\<close>: at most one split, at the first colon.\<close>

definition split_colon1 :: "string \<Rightarrow> string list" where
  "split_colon1 s =
     (if CHR '':'' \<in> set s
      then [takeWhile (\<lambda>c. c \<noteq> CHR '':'') s, tl (dropWhile (\<lambda>c. c \<noteq> CHR '':'') s)]
      else [s])"

text \<open>\<^verbatim>\<open>s.split(":")\<close>: split at every colon.\<close>

fun split_colon :: "string \<Rightarrow> string list" where
  "split_colon [] = [[]]"
| "split_colon (c # cs) =
     (if c = CHR '':'' then [] # split_colon cs
      else (case split_colon cs of
              [] \<Rightarrow> [[c]]
            | p # ps \<Rightarrow> (c # p) # ps))"

text \<open>
  \<^verbatim>\<open>key.split("__", 1)\<close> when \<^verbatim>\<open>"__" in key\<close>: the text before and after the
  leftmost \<^verbatim>\<open>__\<close>; \<open>None\<close> when the key has no \<^verbatim>\<open>__\<close>.
\<close>

fun split_dunder :: "string \<Rightarrow> (string \<times> string) option" where
  "split_dunder (a # b # rest) =
     (if a = CHR ''_'' \<and> b = CHR ''_'' then Some ([], rest)
      else (case split_dunder (b # rest) of
              None \<Rightarrow> None
            | Some (p, q) \<Rightarrow> Some (a # p, q)))"
| "split_dunder _ = None"

text \<open>
  A Python dict as an association list with unique keys in insertion order:
  \<^verbatim>\<open>d[k] = v\<close> replaces the value in place when the key is present and appends otherwise;
  \<^verbatim>\<open>d.pop(k)\<close> removes the key; \<^verbatim>\<open>d.update(e)\<close> assigns the entries of \<open>e\<close> in order.
\<close>

fun dict_set :: "(string \<times> 'a) list \<Rightarrow> string \<Rightarrow> 'a \<Rightarrow> (string \<times> 'a) list" where
  "dict_set [] k v = [(k, v)]"
| "dict_set ((k', v') # d) k v = (if k' = k then (k, v) # d else (k', v') # dict_set d k v)"

definition dict_pop :: "(string \<times> 'a) list \<Rightarrow> string \<Rightarrow> (string \<times> 'a) list" where
  "dict_pop d k = filter (\<lambda>kv. fst kv \<noteq> k) d"

definition dict_update :: "(string \<times> 'a) list \<Rightarrow> (string \<times> 'a) list \<Rightarrow> (string \<times> 'a) list" where
  "dict_update d e = foldl (\<lambda>acc kv. dict_set acc (fst kv) (snd kv)) d e"

section \<open>Extensions and the Builder's extension registry\<close>

text \<open>
  \<^verbatim>\<open>ext.py\<close> is not part of the sources, so an extension class is taken as it is used
  by \<^verbatim>\<open>design.py\<close>: its tag, whether it is a subclass of \<^verbatim>\<open>AttributeExtension\<close>
  and of \<^verbatim>\<open>ValueExtension\<close>, what its \<^verbatim>\<open>value(arg)\<close> and
  \<^verbatim>\<open>attribute(*args, value=...)\<close> methods return or raise, whether it defines
  \<^verbatim>\<open>commit\<close> and \<^verbatim>\<open>roll_back\<close> and whether these hooks raise.
  \<open>ext_object\<close> is the registry entry's \<^verbatim>\<open>extn["object"]\<close>: \<open>False\<close> while it is
  \<^verbatim>\<open>None\<close>, \<open>True\<close> once \<^verbatim>\<open>get_extension\<close> has instantiated the class.
\<close>

datatype attribute_result =
    ResTuple string val
  | ResDict "(string \<times> val) list"
  | ResNone
  | ResOther

record extension =
  ext_tag :: string
  ext_is_attribute :: bool
  ext_is_value :: bool
  ext_value :: "string \<Rightarrow> error + val"
  ext_attribute :: "string list \<Rightarrow> val \<Rightarrow> error + attribute_result"
  ext_has_commit :: bool
  ext_commit_raises :: "error option"
  ext_has_roll_back :: bool
  ext_roll_back_raises :: "error option"
  ext_object :: bool

datatype ext_type = Attribute | Value

definition ext_of_type :: "ext_type \<Rightarrow> extension \<Rightarrow> bool" where
  "ext_of_type t x = (case t of Attribute \<Rightarrow> ext_is_attribute x | Value \<Rightarrow> ext_is_value x)"

text \<open>
  \<^verbatim>\<open>self.extensions[ext_type].get(tag)\<close>: the constructor fills the per-type dict in
  registration order, so a later class with the same tag replaces an earlier one. The
  result is the position of the entry in \<^verbatim>\<open>self.extensions["extensions"]\<close>.
\<close>

fun find_extension :: "extension list \<Rightarrow> ext_type \<Rightarrow> string \<Rightarrow> nat option" where
  "find_extension [] t tag = None"
| "find_extension (x # xs) t tag =
     (case find_extension xs t tag of
        Some i \<Rightarrow> Some (Suc i)
      | None \<Rightarrow> (if ext_of_type t x \<and> ext_tag x = tag then Some 0 else None))"

text \<open>
  \<^verbatim>\<open>Builder.get_extension\<close>: \<open>None\<close> when no extension of that type has the tag;
  otherwise the entry, instantiated on first use.
\<close>

definition get_extension :: "extension list \<Rightarrow> ext_type \<Rightarrow> string \<Rightarrow> nat option \<times> extension list" where
  "get_extension exts t tag =
     (case find_extension exts t tag of
        None \<Rightarrow> (None, exts)
      | Some i \<Rightarrow> (Some i, exts[i := (exts ! i)\<lparr>ext_object := True\<rparr>]))"

section \<open>Value resolution\<close>

text \<open>
  \<^verbatim>\<open>Builder.resolve_value\<close>. The tuple assignment
  \<^verbatim>\<open>(action, arg) = value.lstrip("!").split(":", 1)\<close> raises \<^verbatim>\<open>ValueError\<close>
  when the split has one element only.
\<close>

definition resolve_value :: "extension list \<Rightarrow> val \<Rightarrow> (error + val) \<times> extension list" where
  "resolve_value exts value =
     (case value of
        VStr s \<Rightarrow>
          (if startswith_bang s then
             (case split_colon1 (lstrip_bang s) of
                [action, arg] \<Rightarrow>
                  (case get_extension exts Value action of
                     (Some i, exts') \<Rightarrow> (ext_value (exts' ! i) arg, exts')
                   | (None, exts') \<Rightarrow>
                       (Inl (DesignImplementationError (UnknownAttributeExtension s)), exts'))
              | _ \<Rightarrow> (Inl ValueError, exts))
           else (Inr value, exts))
      | _ \<Rightarrow> (Inr value, exts))"

text \<open>
  The loops of \<^verbatim>\<open>resolve_values\<close> over a list and over the values of a dict:
  each item is resolved in turn, the first error stops the loop.
\<close>

fun resolve_list :: "extension list \<Rightarrow> val list \<Rightarrow> (error + val list) \<times> extension list" where
  "resolve_list exts [] = (Inr [], exts)"
| "resolve_list exts (x # xs) =
     (case resolve_value exts x of
        (Inl e, exts') \<Rightarrow> (Inl e, exts')
      | (Inr y, exts') \<Rightarrow>
          (case resolve_list exts' xs of
             (Inl e, exts'') \<Rightarrow> (Inl e, exts'')
           | (Inr ys, exts'') \<Rightarrow> (Inr (y # ys), exts'')))"

fun resolve_items :: "extension list \<Rightarrow> (string \<times> val) list \<Rightarrow> (error + (string \<times> val) list) \<times> extension list" where
  "resolve_items exts [] = (Inr [], exts)"
| "resolve_items exts ((k, x) # kvs) =
     (case resolve_value exts x of
        (Inl e, exts') \<Rightarrow> (Inl e, exts')
      | (Inr y, exts') \<Rightarrow>
          (case resolve_items exts' kvs of
             (Inl e, exts'') \<Rightarrow> (Inl e, exts'')
           | (Inr ys, exts'') \<Rightarrow> (Inr ((k, y) # ys), exts'')))"

text \<open>\<^verbatim>\<open>Builder.resolve_values\<close> on values without sharing (the result is a new value).\<close>

definition resolve_values :: "extension list \<Rightarrow> val \<Rightarrow> (error + val) \<times> extension list" where
  "resolve_values exts value =
     (case value of
        VStr s \<Rightarrow> resolve_value exts value
      | VList xs \<Rightarrow>
          (case resolve_list exts xs of
             (Inl e, exts') \<Rightarrow> (Inl e, exts')
           | (Inr ys, exts') \<Rightarrow> (Inr (VList ys), exts'))
      | VDict kvs \<Rightarrow>
          (case resolve_items exts kvs of
             (Inl e, exts') \<Rightarrow> (Inl e, exts')
           | (Inr ys, exts') \<Rightarrow> (Inr (VDict ys), exts'))
      | _ \<Rightarrow> (Inr value, exts))"

section \<open>The Journal\<close>

text \<open>
  \<^verbatim>\<open>Journal\<close>: \<open>index\<close> is a set of primary keys, \<open>created\<close> and \<open>updated\<close> map a
  model class to a set of primary keys. A primary key is what \<^verbatim>\<open>instance.pk\<close>
  holds: \<open>None\<close> for an instance that has none, else \<open>Some\<close> key.
\<close>

record journal =
  index :: "nat option set"
  created :: "string \<rightharpoonup> nat option set"
  updated :: "string \<rightharpoonup> nat option set"

definition new_journal :: journal where
  "new_journal = \<lparr>index = {}, created = Map.empty, updated = Map.empty\<rparr>"

text \<open>\<^verbatim>\<open>index.setdefault(model_type, set()); index[model_type].add(pk)\<close>\<close>

definition index_add ::
  "(string \<rightharpoonup> nat option set) \<Rightarrow> string \<Rightarrow> nat option \<Rightarrow> (string \<rightharpoonup> nat option set)" where
  "index_add m model_type pk =
     m(model_type \<mapsto> insert pk (case m model_type of None \<Rightarrow> {} | Some S \<Rightarrow> S))"

text \<open>
  \<^verbatim>\<open>Journal.log(model)\<close>, given what it reads from the model: the class of
  \<^verbatim>\<open>model.instance\<close>, \<^verbatim>\<open>model.instance.pk\<close> and \<^verbatim>\<open>model._created\<close>.
\<close>

definition journal_log :: "journal \<Rightarrow> string \<Rightarrow> nat option \<Rightarrow> bool \<Rightarrow> journal" where
  "journal_log j model_type pk is_created =
     (if pk \<notin> index j then
        (if is_created
         then j\<lparr>index := insert pk (index j), created := index_add (created j) model_type pk\<rparr>
         else j\<lparr>index := insert pk (index j), updated := index_add (updated j) model_type pk\<rparr>)
      else j)"

text \<open>The identities held by one of the two indices, over all model classes.\<close>

definition ids :: "(string \<rightharpoonup> nat option set) \<Rightarrow> nat option set" where
  "ids m = \<Union> (ran m)"

text \<open>A sequence of \<^verbatim>\<open>Journal.log\<close> calls, each given as (class, pk, created flag).\<close>

definition log_all :: "journal \<Rightarrow> (string \<times> nat option \<times> bool) list \<Rightarrow> journal" where
  "log_all j calls = foldl (\<lambda>j c. journal_log j (fst c) (fst (snd c)) (snd (snd c))) j calls"

text \<open>Membership of an identity in one index, under one model class.\<close>

definition in_created :: "journal \<Rightarrow> string \<Rightarrow> nat option \<Rightarrow> bool" where
  "in_created j t pk = (case created j t of None \<Rightarrow> False | Some S \<Rightarrow> pk \<in> S)"

definition in_updated :: "journal \<Rightarrow> string \<Rightarrow> nat option \<Rightarrow> bool" where
  "in_updated j t pk = (case updated j t of None \<Rightarrow> False | Some S \<Rightarrow> pk \<in> S)"

text \<open>
  The invariant of the three indices: what is in \<open>created\<close> or \<open>updated\<close> is in
  \<open>index\<close>, and an identity has at most one place in the two indices.
\<close>

definition journal_inv :: "journal \<Rightarrow> bool" where
  "journal_inv j =
     ((\<forall>t pk. in_created j t pk \<longrightarrow> pk \<in> index j) \<and>
      (\<forall>t pk. in_updated j t pk \<longrightarrow> pk \<in> index j) \<and>
      (\<forall>t t' pk. in_created j t pk \<longrightarrow> \<not> in_updated j t' pk) \<and>
      (\<forall>t t' pk. in_created j t pk \<longrightarrow> in_created j t' pk \<longrightarrow> t = t') \<and>
      (\<forall>t t' pk. in_updated j t pk \<longrightarrow> in_updated j t' pk \<longrightarrow> t = t'))"

section \<open>resolve_values on an explicit object store\<close>

text \<open>
  Whether \<^verbatim>\<open>resolve_values\<close> changes its argument is a question about shared
  mutable objects, so here lists and dicts live in a store (a list of objects, an
  address is a position) and are passed as \<open>VRef\<close>. \<^verbatim>\<open>list(value)\<close> and
  \<^verbatim>\<open>dict(value)\<close> allocate the copy at the next free address, and the loops
  assign into the copy, \<^verbatim>\<open>value[i] = ...\<close> and \<^verbatim>\<open>value[k] = ...\<close>.
\<close>

type_synonym heap = "val list"

fun store_list_set :: "val \<Rightarrow> nat \<Rightarrow> val \<Rightarrow> val" where
  "store_list_set (VList xs) i y = VList (xs[i := y])"
| "store_list_set v i y = v"

fun store_dict_set :: "val \<Rightarrow> string \<Rightarrow> val \<Rightarrow> val" where
  "store_dict_set (VDict kvs) k y = VDict (dict_set kvs k y)"
| "store_dict_set v k y = v"

text \<open>\<^verbatim>\<open>for i, item in enumerate(value): value[i] = self.resolve_value(item)\<close>\<close>

fun resolve_list_store ::
  "extension list \<Rightarrow> heap \<Rightarrow> nat \<Rightarrow> (nat \<times> val) list \<Rightarrow> error option \<times> extension list \<times> heap" where
  "resolve_list_store exts h a [] = (None, exts, h)"
| "resolve_list_store exts h a ((i, item) # rest) =
     (case resolve_value exts item of
        (Inl e, exts') \<Rightarrow> (Some e, exts', h)
      | (Inr y, exts') \<Rightarrow> resolve_list_store exts' (h[a := store_list_set (h ! a) i y]) a rest)"

text \<open>\<^verbatim>\<open>for k, item in value.items(): value[k] = self.resolve_value(item)\<close>\<close>

fun resolve_items_store ::
  "extension list \<Rightarrow> heap \<Rightarrow> nat \<Rightarrow> (string \<times> val) list \<Rightarrow> error option \<times> extension list \<times> heap" where
  "resolve_items_store exts h a [] = (None, exts, h)"
| "resolve_items_store exts h a ((k, item) # rest) =
     (case resolve_value exts item of
        (Inl e, exts') \<Rightarrow> (Some e, exts', h)
      | (Inr y, exts') \<Rightarrow> resolve_items_store exts' (h[a := store_dict_set (h ! a) k y]) a rest)"

text \<open>
  \<^verbatim>\<open>Builder.resolve_values\<close> on the store. A value that is no reference is handled
  as in \<open>resolve_values\<close>; a reference to an object that is neither a list nor a dict is
  returned as it is.
\<close>

definition resolve_values_store ::
  "extension list \<Rightarrow> heap \<Rightarrow> val \<Rightarrow> (error + val) \<times> extension list \<times> heap" where
  "resolve_values_store exts h value =
     (case value of
        VRef a \<Rightarrow>
          (if a < length h then
             (case h ! a of
                VList xs \<Rightarrow>
                  (case resolve_list_store exts (h @ [VList xs]) (length h) (enumerate 0 xs) of
                     (Some e, exts', h') \<Rightarrow> (Inl e, exts', h')
                   | (None, exts', h') \<Rightarrow> (Inr (VRef (length h)), exts', h'))
              | VDict kvs \<Rightarrow>
                  (case resolve_items_store exts (h @ [VDict kvs]) (length h) kvs of
                     (Some e, exts', h') \<Rightarrow> (Inl e, exts', h')
                   | (None, exts', h') \<Rightarrow> (Inr (VRef (length h)), exts', h'))
              | _ \<Rightarrow> (Inr value, exts, h))
           else (Inr value, exts, h))
      | _ \<Rightarrow> (case resolve_values exts value of (r, exts') \<Rightarrow> (r, exts', h)))"

text \<open>
  The spec's grammar of a value extension reference is \<^verbatim>\<open>!tag:arg\<close>: a string
  that starts with \<^verbatim>\<open>!\<close> and has a colon. The scalars the spec says pass
  through unchanged are the values that are no list, no dict and no such reference.
\<close>

definition value_reference :: "string \<Rightarrow> bool" where
  "value_reference s = (startswith_bang s \<and> CHR '':'' \<in> set s)"

definition claimed_scalar :: "val \<Rightarrow> bool" where
  "claimed_scalar v =
     (case v of
        VStr s \<Rightarrow> \<not> value_reference s
      | VList xs \<Rightarrow> False
      | VDict kvs \<Rightarrow> False
      | VRef a \<Rightarrow> False
      | _ \<Rightarrow> True)"

text \<open>
  The scalars that \<^verbatim>\<open>resolve_value\<close> does not look at: no list, no dict, and no
  string that starts with \<^verbatim>\<open>!\<close>, with or without a colon. This is narrower
  than \<open>claimed_scalar\<close>: \<^verbatim>\<open>"!ref"\<close> is a claimed scalar and is not unmarked.
\<close>

definition unmarked_scalar :: "val \<Rightarrow> bool" where
  "unmarked_scalar v =
     (case v of
        VStr s \<Rightarrow> \<not> startswith_bang s
      | VList xs \<Rightarrow> False
      | VDict kvs \<Rightarrow> False
      | VRef a \<Rightarrow> False
      | _ \<Rightarrow> True)"

section \<open>The object store behind the Django ORM\<close>

text \<open>
  The Builder's mutable state and the database. The database is external to
  \<^verbatim>\<open>design.py\<close>; it is modelled as the list of saved rows, each a \<open>VModel\<close> with a
  primary key, with the operations the source calls: \<^verbatim>\<open>objects.get\<close>,
  \<^verbatim>\<open>Model(**kwargs)\<close>, \<^verbatim>\<open>full_clean\<close>, \<^verbatim>\<open>save\<close> and
  \<^verbatim>\<open>refresh_from_db\<close>.
\<close>

record state =
  extensions :: "extension list"
  journal :: journal
  db :: "val list"
  next_pk :: nat

fun model_name :: "val \<Rightarrow> string" where
  "model_name (VModel c pk fs cf) = c"
| "model_name v = []"

fun model_pk :: "val \<Rightarrow> nat option" where
  "model_pk (VModel c pk fs cf) = pk"
| "model_pk v = None"

fun model_fields :: "val \<Rightarrow> (string \<times> val) list" where
  "model_fields (VModel c pk fs cf) = fs"
| "model_fields v = []"

fun model_cf :: "val \<Rightarrow> (string \<times> val) list" where
  "model_cf (VModel c pk fs cf) = cf"
| "model_cf v = []"

fun is_model :: "val \<Rightarrow> bool" where
  "is_model (VModel c pk fs cf) = True"
| "is_model v = False"

text \<open>Two model instances are the same row when class and primary key agree.\<close>

definition same_row :: "val \<Rightarrow> val \<Rightarrow> bool" where
  "same_row a b = (is_model a \<and> is_model b \<and> model_name a = model_name b
                   \<and> model_pk a = model_pk b \<and> model_pk a \<noteq> None)"

text \<open>
  A stored field value satisfies a lookup value when both are the same row, or when
  they are equal. A row satisfies the criteria of a lookup when each names a field of
  the row whose value satisfies it.
\<close>

definition value_matches :: "val \<Rightarrow> val \<Rightarrow> bool" where
  "value_matches stored wanted = (same_row stored wanted \<or> stored = wanted)"

definition row_matches :: "(string \<times> val) list \<Rightarrow> val \<Rightarrow> bool" where
  "row_matches criteria row =
     list_all (\<lambda>kv. case map_of (model_fields row) (fst kv) of
                       None \<Rightarrow> False
                     | Some stored \<Rightarrow> value_matches stored (snd kv)) criteria"

text \<open>\<^verbatim>\<open>manager.get(**criteria)\<close> on the rows of one model class.\<close>

definition objects_get :: "val list \<Rightarrow> string \<Rightarrow> (string \<times> val) list \<Rightarrow> error + val" where
  "objects_get rows cls criteria =
     (case filter (\<lambda>r. model_name r = cls \<and> row_matches criteria r) rows of
        [] \<Rightarrow> Inl ObjectDoesNotExist
      | [r] \<Rightarrow> Inr r
      | _ \<Rightarrow> Inl MultipleObjectsReturned)"

text \<open>
  \<^verbatim>\<open>instance.save()\<close>: an instance without primary key gets the next one and a new
  row; an instance with a primary key replaces its row.
\<close>

definition db_save :: "val \<Rightarrow> state \<Rightarrow> (error + val) \<times> state" where
  "db_save inst s =
     (case inst of
        VModel c None fs cf \<Rightarrow>
          (Inr (VModel c (Some (next_pk s)) fs cf),
           s\<lparr>db := db s @ [VModel c (Some (next_pk s)) fs cf], next_pk := Suc (next_pk s)\<rparr>)
      | VModel c (Some pk) fs cf \<Rightarrow>
          (Inr inst,
           (if list_ex (\<lambda>r. same_row r inst) (db s)
            then s\<lparr>db := map (\<lambda>r. if same_row r inst then inst else r) (db s)\<rparr>
            else s\<lparr>db := db s @ [inst]\<rparr>))
      | _ \<Rightarrow> (Inl AttributeError, s))"

text \<open>\<^verbatim>\<open>instance.refresh_from_db()\<close>\<close>

definition refresh_from_db :: "val \<Rightarrow> state \<Rightarrow> error + val" where
  "refresh_from_db inst s =
     (if is_model inst then
        (case filter (\<lambda>r. same_row r inst) (db s) of
           [] \<Rightarrow> Inl ObjectDoesNotExist
         | r # rs \<Rightarrow> Inr r)
      else Inl AttributeError)"

section \<open>Model classes and nodes\<close>

text \<open>
  What \<^verbatim>\<open>ModelClass.factory\<close> and \<^verbatim>\<open>ModelInstance\<close> read from a Django model
  class by reflection:
  its \<^verbatim>\<open>__name__\<close>; the names of \<^verbatim>\<open>_meta.get_fields()\<close>, each of which
  becomes a \<^verbatim>\<open>field_factory\<close> descriptor of the node class; the slugs that
  \<^verbatim>\<open>refresh_custom_relationships\<close> adds as descriptors; the names \<open>n\<close> with
  \<^verbatim>\<open>hasattr(django_class, n)\<close>; for a relationship attribute \<open>r\<close> the class of
  \<^verbatim>\<open>getattr(django_class, r).get_queryset().model\<close>; the keyword names the
  constructor of the class accepts; and whether \<^verbatim>\<open>full_clean()\<close> accepts an
  instance.
\<close>

record model_class =
  mc_name :: string
  mc_fields :: "string list"
  mc_custom_relationships :: "string list"
  mc_model_attrs :: "string list"
  mc_relations :: "(string \<times> string) list"
  mc_init_names :: "string list"
  mc_full_clean :: "val \<Rightarrow> bool"

datatype signal = PRE_SAVE | POST_INSTANCE_SAVE | POST_SAVE

text \<open>
  A handler connected to a signal of a node is a closure of code outside
  \<^verbatim>\<open>design.py\<close>: it may change the node's backing instance and the state, or raise.
\<close>

type_synonym handler = "val \<Rightarrow> state \<Rightarrow> (error + val) \<times> state"

text \<open>
  The attributes of a \<^verbatim>\<open>ModelInstance\<close>. \<open>node_relationship_manager\<close> is the
  model class whose rows the manager ranges over. \<open>node_setattrs\<close> holds what
  \<^verbatim>\<open>setattr(self, name, value)\<close> stored on the node itself for a class attribute
  that is no descriptor.
\<close>

record node =
  node_model_class :: model_class
  node_instance :: val
  node_attributes :: "(string \<times> val) list"
  node_custom_fields :: val
  node_filter :: "(string \<times> val) list"
  node_action :: "string option"
  node_kwargs :: "(string \<times> val) list"
  node_created :: bool
  node_relationship_manager :: string
  node_signals :: "signal \<Rightarrow> handler list"
  node_setattrs :: "(string \<times> val) list"

text \<open>
  What the Builder holds beside its state: \<^verbatim>\<open>model_map\<close>,
  \<^verbatim>\<open>model_class_index\<close> (keyed by the Django class, here its name), and the
  \<^verbatim>\<open>__set__\<close> of the descriptors that \<^verbatim>\<open>field_factory\<close> builds
  (\<^verbatim>\<open>fields.py\<close> is not part of the sources, so it is a parameter).
\<close>

record env =
  model_map :: "(string \<times> model_class) list"
  model_class_index :: "(string \<times> model_class) list"
  field_set :: "string \<Rightarrow> val \<Rightarrow> node \<Rightarrow> state \<Rightarrow> (error + node) \<times> state"

text \<open>
  Modelled from the spec: the descriptor of a plain field, which sets the value
  "on the backing record directly".
\<close>

fun model_setattr :: "val \<Rightarrow> string \<Rightarrow> val \<Rightarrow> val" where
  "model_setattr (VModel c pk fs cf) name v = VModel c pk (dict_set fs name v) cf"
| "model_setattr inst name v = inst"

definition simple_field_set :: "string \<Rightarrow> val \<Rightarrow> node \<Rightarrow> state \<Rightarrow> (error + node) \<times> state" where
  "simple_field_set name v n s =
     (Inr (n\<lparr>node_instance := model_setattr (node_instance n) name v\<rparr>), s)"

text \<open>The names defined in the class bodies of \<^verbatim>\<open>ModelClass\<close> and \<^verbatim>\<open>ModelInstance\<close>
  (with \<^verbatim>\<open>name\<close> and \<^verbatim>\<open>model_class\<close>, which the factory sets), and of \<^verbatim>\<open>object\<close>.\<close>

definition class_body_names :: "string list" where
  "class_body_names =
     [''name'', ''model_class'', ''deferred'', ''refresh_custom_relationships'', ''factory'',
      ''GET'', ''CREATE'', ''UPDATE'', ''CREATE_OR_UPDATE'', ''ACTION_CHOICES'',
      ''PRE_SAVE'', ''POST_INSTANCE_SAVE'', ''POST_SAVE'',
      ''create_child'', ''_parse_attributes'', ''connect'', ''_send'', ''_load_instance'',
      ''_update_fields'', ''save'', ''set_custom_field'',
      ''__init__'', ''__str__'', ''__annotations__'', ''__class__'', ''__delattr__'', ''__dict__'',
      ''__dir__'', ''__doc__'', ''__eq__'', ''__format__'', ''__ge__'', ''__getattribute__'',
      ''__gt__'', ''__hash__'', ''__init_subclass__'', ''__le__'', ''__lt__'', ''__module__'',
      ''__ne__'', ''__new__'', ''__reduce__'', ''__reduce_ex__'', ''__repr__'', ''__setattr__'',
      ''__sizeof__'', ''__subclasshook__'', ''__weakref__'']"

text \<open>The instance attributes that \<^verbatim>\<open>__init__\<close> has assigned when the parsing loop runs.\<close>

definition init_attr_names :: "string list" where
  "init_attr_names =
     [''creator'', ''instance'', ''attributes'', ''_parent'', ''signals'', ''_filter'', ''_action'',
      ''_kwargs'', ''_created'', ''_custom_fields'']"

text \<open>A descriptor of the node class: a reflected field or a custom relationship.\<close>

definition is_descriptor :: "model_class \<Rightarrow> string \<Rightarrow> bool" where
  "is_descriptor mc name = (name \<in> set (mc_fields mc @ mc_custom_relationships mc))"

text \<open>\<^verbatim>\<open>hasattr(self.__class__, name)\<close>\<close>

definition hasattr_class :: "model_class \<Rightarrow> string \<Rightarrow> bool" where
  "hasattr_class mc name = (is_descriptor mc name \<or> name \<in> set class_body_names)"

text \<open>\<^verbatim>\<open>hasattr(self, key)\<close> in the parsing loop.\<close>

definition hasattr_self :: "model_class \<Rightarrow> string \<Rightarrow> bool" where
  "hasattr_self mc name = (hasattr_class mc name \<or> name \<in> set init_attr_names)"

text \<open>\<^verbatim>\<open>hasattr(self.model_class, fieldname)\<close>, on the Django class.\<close>

definition hasattr_model :: "model_class \<Rightarrow> string \<Rightarrow> bool" where
  "hasattr_model mc name = (name \<in> set (mc_model_attrs mc))"

text \<open>\<^verbatim>\<open>hasattr(self.instance, field_name)\<close>: a class attribute or a value the instance holds.\<close>

definition hasattr_instance :: "model_class \<Rightarrow> val \<Rightarrow> string \<Rightarrow> bool" where
  "hasattr_instance mc inst name =
     (is_model inst \<and> (name \<in> set (mc_model_attrs mc) \<or> name \<in> set (map fst (model_fields inst))))"

section \<open>ModelInstance: attribute parsing\<close>

text \<open>The three action tags of \<^verbatim>\<open>[self.GET, self.UPDATE, self.CREATE_OR_UPDATE]\<close>.\<close>

definition is_action_tag :: "string \<Rightarrow> bool" where
  "is_action_tag a = (a = ''get'' \<or> a = ''update'' \<or> a = ''create_or_update'')"

text \<open>
  The branch of the parsing loop for an action tag, as the source orders it:
  \<^verbatim>\<open>self._action = args[0]\<close>, then \<^verbatim>\<open>self._filter[args[1]] = value\<close>
  (\<^verbatim>\<open>IndexError\<close> when the key has no colon), then the test of \<^verbatim>\<open>self._action\<close>
  against \<^verbatim>\<open>args[0]\<close>.
\<close>

definition set_action :: "string list \<Rightarrow> val \<Rightarrow> node \<Rightarrow> error + node" where
  "set_action args value n =
     (case args of
        [] \<Rightarrow> Inl IndexError
      | a0 # rest \<Rightarrow>
          (let n1 = n\<lparr>node_action := Some a0\<rparr> in
           case rest of
             [] \<Rightarrow> Inl IndexError
           | a1 # others \<Rightarrow>
               (let n2 = n1\<lparr>node_filter := dict_set (node_filter n1) a1 value\<rparr> in
                case node_action n2 of
                  None \<Rightarrow> Inr (n2\<lparr>node_action := Some a0\<rparr>)
                | Some current \<Rightarrow>
                    (if current \<noteq> a0
                     then Inl (DesignImplementationError (OnlyOneAction current a0))
                     else Inr n2))))"

text \<open>
  The branch for a key that starts with \<^verbatim>\<open>!\<close>; the result holds the keys to append
  to \<^verbatim>\<open>attribute_names\<close>. The extension's \<^verbatim>\<open>attribute\<close> method is given the
  arguments and the value (what it may do to the node it is handed is not followed).
\<close>

definition parse_directive ::
  "string \<Rightarrow> val \<Rightarrow> node \<Rightarrow> state \<Rightarrow> (error + string list \<times> node) \<times> state" where
  "parse_directive key value n s =
     (case split_colon (lstrip_bang key) of
        [] \<Rightarrow> (Inl IndexError, s)
      | a0 # rest \<Rightarrow>
          (case get_extension (extensions s) Attribute a0 of
             (Some i, exts') \<Rightarrow>
               (case ext_attribute (exts' ! i) rest value of
                  Inl e \<Rightarrow> (Inl e, s\<lparr>extensions := exts'\<rparr>)
                | Inr (ResTuple k v) \<Rightarrow>
                    (Inr ([], n\<lparr>node_attributes := dict_set (node_attributes n) k v\<rparr>),
                     s\<lparr>extensions := exts'\<rparr>)
                | Inr (ResDict d) \<Rightarrow>
                    (Inr (map fst d, n\<lparr>node_attributes := dict_update (node_attributes n) d\<rparr>),
                     s\<lparr>extensions := exts'\<rparr>)
                | Inr ResNone \<Rightarrow> (Inr ([], n), s\<lparr>extensions := exts'\<rparr>)
                | Inr ResOther \<Rightarrow>
                    (Inl (DesignImplementationError CannotHandleReturnType), s\<lparr>extensions := exts'\<rparr>))
           | (None, exts') \<Rightarrow>
               (if is_action_tag a0 then
                  (case set_action (a0 # rest) value n of
                     Inl e \<Rightarrow> (Inl e, s\<lparr>extensions := exts'\<rparr>)
                   | Inr n' \<Rightarrow> (Inr ([], n'), s\<lparr>extensions := exts'\<rparr>))
                else (Inl (DesignImplementationError (UnknownAction a0)), s\<lparr>extensions := exts'\<rparr>))))"

text \<open>
  One pass of the body of \<^verbatim>\<open>while attribute_names\<close> for the key taken from the
  front of the queue.
\<close>

definition parse_key :: "string \<Rightarrow> node \<Rightarrow> state \<Rightarrow> (error + string list \<times> node) \<times> state" where
  "parse_key key n s =
     (case map_of (node_attributes n) key of
        None \<Rightarrow> (Inl KeyError, s)
      | Some v \<Rightarrow>
          (case resolve_values (extensions s) v of
             (Inl e, exts') \<Rightarrow> (Inl e, s\<lparr>extensions := exts'\<rparr>)
           | (Inr value, exts') \<Rightarrow>
               (let s1 = s\<lparr>extensions := exts'\<rparr>;
                    n1 = n\<lparr>node_attributes := dict_set (node_attributes n) key value\<rparr>
                in if startswith_bang key then
                     parse_directive key value
                       (n1\<lparr>node_attributes := dict_pop (node_attributes n1) key\<rparr>) s1
                   else
                     (case split_dunder key of
                        Some (fieldname, search) \<Rightarrow>
                          (if \<not> hasattr_model (node_model_class n1) fieldname
                           then (Inl (DesignImplementationError (NotAProperty fieldname)), s1)
                           else (Inr ([], n1\<lparr>node_attributes :=
                                   dict_set (dict_pop (node_attributes n1) key) fieldname
                                     (VDict [(''!get:'' @ search, value)])\<rparr>), s1))
                      | None \<Rightarrow>
                          (if \<not> hasattr_self (node_model_class n1) key
                           then (Inr ([], n1\<lparr>node_attributes := dict_pop (node_attributes n1) key,
                                   node_kwargs := dict_set (node_kwargs n1) key
                                     (case value of VModelInstance i \<Rightarrow> i | _ \<Rightarrow> value)\<rparr>), s1)
                           else (Inr ([], n1), s1))))))"

text \<open>
  The loop \<^verbatim>\<open>while attribute_names\<close>. An extension may queue keys for ever, so the
  loop has fuel; \<open>None\<close> is the loop that has not ended when the fuel is used up.
\<close>

fun parse_loop :: "nat \<Rightarrow> string list \<Rightarrow> node \<Rightarrow> state \<Rightarrow> ((error + node) \<times> state) option" where
  "parse_loop fuel [] n s = Some (Inr n, s)"
| "parse_loop 0 (key # names) n s = None"
| "parse_loop (Suc fuel) (key # names) n s =
     (case parse_key key n s of
        (Inl e, s') \<Rightarrow> Some (Inl e, s')
      | (Inr (queued, n'), s') \<Rightarrow> parse_loop fuel (names @ queued) n' s')"

text \<open>\<^verbatim>\<open>ModelInstance.ACTION_CHOICES\<close>\<close>

definition action_choices :: "string list" where
  "action_choices = [''get'', ''create'', ''update'', ''create_or_update'']"

text \<open>\<^verbatim>\<open>ModelInstance._parse_attributes\<close>\<close>

definition parse_attributes :: "nat \<Rightarrow> node \<Rightarrow> state \<Rightarrow> ((error + node) \<times> state) option" where
  "parse_attributes fuel n s =
     (let n0 = n\<lparr>node_custom_fields :=
                   (case map_of (node_attributes n) ''custom_fields'' of
                      None \<Rightarrow> VDict []
                    | Some cf \<Rightarrow> cf),
                 node_attributes := dict_pop (node_attributes n) ''custom_fields''\<rparr>
      in case parse_loop fuel (map fst (node_attributes n0)) n0 s of
           None \<Rightarrow> None
         | Some (Inl e, s') \<Rightarrow> Some (Inl e, s')
         | Some (Inr n1, s') \<Rightarrow>
             (let a = (case node_action n1 of None \<Rightarrow> ''create'' | Some a' \<Rightarrow> a')
              in if a \<notin> set action_choices
                 then Some (Inl (DesignImplementationError (UnknownAction a)), s')
                 else Some (Inr (n1\<lparr>node_action := Some a\<rparr>), s')))"

section \<open>ModelInstance: save\<close>

text \<open>
  \<^verbatim>\<open>_send(signal)\<close>: each handler of the signal, then
  \<^verbatim>\<open>self.instance.refresh_from_db()\<close>.
\<close>

fun send :: "handler list \<Rightarrow> val \<Rightarrow> state \<Rightarrow> (error + val) \<times> state" where
  "send [] inst s = (Inr inst, s)"
| "send (h # hs) inst s =
     (case h inst s of
        (Inl e, s') \<Rightarrow> (Inl e, s')
      | (Inr inst', s') \<Rightarrow>
          (case refresh_from_db inst' s' of
             Inl e \<Rightarrow> (Inl e, s')
           | Inr inst'' \<Rightarrow> send hs inst'' s'))"

text \<open>
  \<^verbatim>\<open>Journal.log(model)\<close> on a node: it reads the class and the primary key of
  \<^verbatim>\<open>model.instance\<close> (\<open>None\<close> included) and \<^verbatim>\<open>model._created\<close>.
\<close>

definition journal_log_node :: "journal \<Rightarrow> node \<Rightarrow> journal" where
  "journal_log_node j n =
     journal_log j (model_name (node_instance n)) (model_pk (node_instance n)) (node_created n)"

text \<open>
  The \<^verbatim>\<open>try\<close> block of \<^verbatim>\<open>save\<close>: \<^verbatim>\<open>full_clean\<close>, \<^verbatim>\<open>instance.save()\<close>,
  \<^verbatim>\<open>self._created = False\<close>, \<^verbatim>\<open>journal.log(self)\<close>, \<^verbatim>\<open>refresh_from_db\<close>;
  a \<^verbatim>\<open>ValidationError\<close> becomes \<^verbatim>\<open>DesignValidationError\<close>.
\<close>

definition save_instance :: "node \<Rightarrow> state \<Rightarrow> (error + node) \<times> state" where
  "save_instance n s =
     (if \<not> is_model (node_instance n) then (Inl AttributeError, s)
      else if \<not> mc_full_clean (node_model_class n) (node_instance n)
        then (Inl DesignValidationError, s)
      else
        (case db_save (node_instance n) s of
           (Inl e, s1) \<Rightarrow> (Inl e, s1)
         | (Inr inst1, s1) \<Rightarrow>
             (let n1 = n\<lparr>node_instance := inst1\<rparr>;
                  n2 = n1\<lparr>node_created := False\<rparr>;
                  s2 = s1\<lparr>journal := journal_log_node (journal s1) n2\<rparr>
              in case refresh_from_db (node_instance n2) s2 of
                   Inl e \<Rightarrow> (Inl e, s2)
                 | Inr inst2 \<Rightarrow> (Inr (n2\<lparr>node_instance := inst2\<rparr>), s2))))"

text \<open>\<^verbatim>\<open>ModelInstance.save\<close>\<close>

definition save :: "node \<Rightarrow> state \<Rightarrow> (error + node) \<times> state" where
  "save n s =
     (if node_action n = Some ''get'' then (Inr n, s)
      else
        (case send (node_signals n PRE_SAVE) (node_instance n) s of
           (Inl e, s1) \<Rightarrow> (Inl e, s1)
         | (Inr inst1, s1) \<Rightarrow>
             (case save_instance (n\<lparr>node_instance := inst1\<rparr>) s1 of
                (Inl e, s2) \<Rightarrow> (Inl e, s2)
              | (Inr n2, s2) \<Rightarrow>
                  (case send (node_signals n2 POST_INSTANCE_SAVE) (node_instance n2) s2 of
                     (Inl e, s3) \<Rightarrow> (Inl e, s3)
                   | (Inr inst3, s3) \<Rightarrow>
                       (case send (node_signals n2 POST_SAVE) inst3 s3 of
                          (Inl e, s4) \<Rightarrow> (Inl e, s4)
                        | (Inr inst4, s4) \<Rightarrow> (Inr (n2\<lparr>node_instance := inst4\<rparr>), s4))))))"

section \<open>ModelInstance: field application\<close>

text \<open>\<^verbatim>\<open>set_custom_field\<close>: \<^verbatim>\<open>self.instance.cf[field] = value\<close>\<close>

fun set_custom_field :: "val \<Rightarrow> string \<Rightarrow> val \<Rightarrow> error + val" where
  "set_custom_field (VModel c pk fs cf) field v = Inr (VModel c pk fs (dict_set cf field v))"
| "set_custom_field inst field v = Inl AttributeError"

text \<open>\<^verbatim>\<open>for key, value in self._custom_fields.items(): self.set_custom_field(key, value)\<close>\<close>

fun set_custom_fields :: "(string \<times> val) list \<Rightarrow> val \<Rightarrow> error + val" where
  "set_custom_fields [] inst = Inr inst"
| "set_custom_fields ((key, v) # rest) inst =
     (case set_custom_field inst key v of
        Inl e \<Rightarrow> Inl e
      | Inr inst' \<Rightarrow> set_custom_fields rest inst')"

definition apply_custom_fields :: "node \<Rightarrow> error + node" where
  "apply_custom_fields n =
     (case node_custom_fields n of
        VDict cfs \<Rightarrow>
          (case set_custom_fields cfs (node_instance n) of
             Inl e \<Rightarrow> Inl e
           | Inr inst \<Rightarrow> Inr (n\<lparr>node_instance := inst\<rparr>))
      | _ \<Rightarrow> Inl AttributeError)"

text \<open>
  The assignment of one entry of \<^verbatim>\<open>self.attributes\<close>: through
  \<^verbatim>\<open>setattr(self, ...)\<close> when the node class has the name (the descriptor's
  \<^verbatim>\<open>__set__\<close> for a field, an attribute of the node otherwise), else through
  \<^verbatim>\<open>setattr(self.instance, ...)\<close> when the instance has the name, else not at all.
\<close>

definition assign_field :: "env \<Rightarrow> string \<Rightarrow> val \<Rightarrow> node \<Rightarrow> state \<Rightarrow> (error + node) \<times> state" where
  "assign_field ev field_name v n s =
     (if hasattr_class (node_model_class n) field_name then
        (if is_descriptor (node_model_class n) field_name then field_set ev field_name v n s
         else (Inr (n\<lparr>node_setattrs := dict_set (node_setattrs n) field_name v\<rparr>), s))
      else if hasattr_instance (node_model_class n) (node_instance n) field_name then
        (Inr (n\<lparr>node_instance := model_setattr (node_instance n) field_name v\<rparr>), s)
      else (Inr n, s))"

text \<open>
  The loop of \<^verbatim>\<open>_update_fields\<close> over \<^verbatim>\<open>self.attributes.items()\<close>; the loop over
  the custom fields is inside its body.
\<close>

fun apply_fields :: "env \<Rightarrow> (string \<times> val) list \<Rightarrow> node \<Rightarrow> state \<Rightarrow> (error + node) \<times> state" where
  "apply_fields ev [] n s = (Inr n, s)"
| "apply_fields ev ((field_name, v) # rest) n s =
     (case assign_field ev field_name v n s of
        (Inl e, s1) \<Rightarrow> (Inl e, s1)
      | (Inr n1, s1) \<Rightarrow>
          (case apply_custom_fields n1 of
             Inl e \<Rightarrow> (Inl e, s1)
           | Inr n2 \<Rightarrow> apply_fields ev rest n2 s1))"

text \<open>
  \<^verbatim>\<open>self.attributes[0]\<close>: the keys of the dict are strings, so the subscript \<open>0\<close>
  is no key and the lookup raises \<^verbatim>\<open>KeyError\<close>.
\<close>

definition attributes_item_0 :: "(string \<times> val) list \<Rightarrow> error + val" where
  "attributes_item_0 attrs = Inl KeyError"

text \<open>
  \<^verbatim>\<open>ModelInstance._update_fields\<close>. The guard is
  \<^verbatim>\<open>len(self.attributes) != 1 and self.attributes[0] != "deferred"\<close>, so the second
  operand is evaluated only when the length is not 1.
\<close>

definition update_fields :: "env \<Rightarrow> node \<Rightarrow> state \<Rightarrow> (error + node) \<times> state" where
  "update_fields ev n s =
     (if node_action n = Some ''get'' \<and> node_attributes n \<noteq> [] then
        (if length (node_attributes n) \<noteq> 1 then
           (case attributes_item_0 (node_attributes n) of
              Inl e \<Rightarrow> (Inl e, s)
            | Inr first \<Rightarrow>
                (if first \<noteq> VStr ''deferred'' then (Inl ValueError, s)
                 else apply_fields ev (node_attributes n) n s))
         else apply_fields ev (node_attributes n) n s)
      else apply_fields ev (node_attributes n) n s)"

section \<open>ModelInstance: load or create\<close>

text \<open>\<^verbatim>\<open>_map_query_values\<close>: a \<^verbatim>\<open>ModelInstance\<close> becomes its instance, a mapping is mapped in turn.\<close>

fun map_query_value :: "val \<Rightarrow> val" where
  "map_query_value (VModelInstance i) = i"
| "map_query_value (VDict kvs) = VDict (map (\<lambda>kv. (fst kv, map_query_value (snd kv))) kvs)"
| "map_query_value v = v"

definition map_query_values :: "(string \<times> val) list \<Rightarrow> (string \<times> val) list" where
  "map_query_values query = map (\<lambda>kv. (fst kv, map_query_value (snd kv))) query"

text \<open>
  The first loop of the UPDATE and CREATE_OR_UPDATE branch, over
  \<^verbatim>\<open>list(query_filter.keys())\<close>: a key \<^verbatim>\<open>attribute__filter_param\<close> is popped and
  its value stored as \<^verbatim>\<open>query_filter[attribute]["!get:filter_param"]\<close>.
  The item assignment raises \<^verbatim>\<open>TypeError\<close> when \<^verbatim>\<open>query_filter[attribute]\<close> is
  no dict.
\<close>

fun expand_lookups :: "string list \<Rightarrow> (string \<times> val) list \<Rightarrow> error + (string \<times> val) list" where
  "expand_lookups [] q = Inr q"
| "expand_lookups (query_param # params) q =
     (case split_dunder query_param of
        None \<Rightarrow> expand_lookups params q
      | Some (attribute, filter_param) \<Rightarrow>
          (case map_of q query_param of
             None \<Rightarrow> Inl KeyError
           | Some v \<Rightarrow>
               (let q1 = dict_pop q query_param;
                    q2 = (case map_of q1 attribute of
                            None \<Rightarrow> dict_set q1 attribute (VDict [])
                          | Some d \<Rightarrow> q1)
                in case map_of q2 attribute of
                     Some (VDict d) \<Rightarrow>
                       expand_lookups params
                         (dict_set q2 attribute (VDict (dict_set d (''!get:'' @ filter_param) v)))
                   | _ \<Rightarrow> Inl TypeError)))"

text \<open>
  The type of \<^verbatim>\<open>create_child\<close> with the creator fixed: model class, attributes and
  the model class of the relationship manager; \<open>None\<close> when the fuel of the
  construction is used up.
\<close>

type_synonym child_maker =
  "model_class \<Rightarrow> (string \<times> val) list \<Rightarrow> string \<Rightarrow> state \<Rightarrow> ((error + node) \<times> state) option"

text \<open>
  The second loop, over \<^verbatim>\<open>query_filter.items()\<close>: for a value that is a mapping the
  child is built through \<^verbatim>\<open>create_child\<close>, saved unless its action is GET, and
  \<^verbatim>\<open>query_filter[query_param] = model.instance\<close>,
  \<^verbatim>\<open>field_values[query_param] = model\<close>. \<^verbatim>\<open>getattr(self.model_class, query_param)\<close>
  raises \<^verbatim>\<open>AttributeError\<close> and \<^verbatim>\<open>model_class_index[queryset.model]\<close>
  raises \<^verbatim>\<open>KeyError\<close> when there is none.
\<close>

fun resolve_children ::
  "child_maker \<Rightarrow> env \<Rightarrow> model_class \<Rightarrow> (string \<times> val) list \<Rightarrow>
   (string \<times> val) list \<Rightarrow> (string \<times> val) list \<Rightarrow> state \<Rightarrow>
   ((error + (string \<times> val) list \<times> (string \<times> val) list) \<times> state) option" where
  "resolve_children mk ev mc [] q fv s = Some (Inr (q, fv), s)"
| "resolve_children mk ev mc ((query_param, v) # items) q fv s =
     (case v of
        VDict d \<Rightarrow>
          (case map_of (mc_relations mc) query_param of
             None \<Rightarrow> Some (Inl AttributeError, s)
           | Some related \<Rightarrow>
               (case map_of (model_class_index ev) related of
                  None \<Rightarrow> Some (Inl KeyError, s)
                | Some child_class \<Rightarrow>
                    (case mk child_class d related s of
                       None \<Rightarrow> None
                     | Some (Inl e, s1) \<Rightarrow> Some (Inl e, s1)
                     | Some (Inr model, s1) \<Rightarrow>
                         (case (if node_action model \<noteq> Some ''get'' then save model s1
                                else (Inr model, s1)) of
                            (Inl e, s2) \<Rightarrow> Some (Inl e, s2)
                          | (Inr model', s2) \<Rightarrow>
                              resolve_children mk ev mc items
                                (dict_set q query_param (node_instance model'))
                                (dict_set fv query_param (VModelInstance (node_instance model')))
                                s2))))
      | _ \<Rightarrow> resolve_children mk ev mc items q fv s)"

text \<open>
  \<^verbatim>\<open>self.model_class(**self._kwargs)\<close> and \<^verbatim>\<open>self._created = True\<close>; a
  \<^verbatim>\<open>TypeError\<close> of the constructor becomes a \<^verbatim>\<open>DesignImplementationError\<close>.
\<close>

definition construct :: "node \<Rightarrow> error + node" where
  "construct n =
     (if list_all (\<lambda>kv. fst kv \<in> set (mc_init_names (node_model_class n))) (node_kwargs n)
      then Inr (n\<lparr>node_instance := VModel (mc_name (node_model_class n)) None (node_kwargs n) [],
                  node_created := True\<rparr>)
      else Inl (DesignImplementationError ConstructorTypeError))"

text \<open>
  The lookup of the UPDATE and CREATE_OR_UPDATE branch with the resolved filter and
  what follows it: the found row becomes the instance; when there is none, UPDATE
  raises and CREATE_OR_UPDATE sets \<^verbatim>\<open>_created\<close>, updates the attributes with the
  field values and goes on to the constructor.
\<close>

definition lookup_or_create ::
  "node \<Rightarrow> (string \<times> val) list \<Rightarrow> (string \<times> val) list \<Rightarrow> state \<Rightarrow> error + node" where
  "lookup_or_create n query_filter field_values s =
     (case objects_get (db s) (node_relationship_manager n) query_filter of
        Inr row \<Rightarrow> Inr (n\<lparr>node_instance := row\<rparr>)
      | Inl err \<Rightarrow>
          (if err = ObjectDoesNotExist then
             (if node_action n = Some ''update''
              then Inl (DesignImplementationError NoMatch)
              else construct (n\<lparr>node_created := True,
                     node_attributes := dict_update (node_attributes n) field_values\<rparr>))
           else Inl err))"

text \<open>\<^verbatim>\<open>ModelInstance._load_instance\<close>\<close>

definition load_instance ::
  "child_maker \<Rightarrow> env \<Rightarrow> node \<Rightarrow> state \<Rightarrow> ((error + node) \<times> state) option" where
  "load_instance mk ev n s =
     (let query_filter = map_query_values (node_filter n);
          field_values = node_filter n
      in if node_action n = Some ''get'' then
           (case objects_get (db s) (mc_name (node_model_class n)) query_filter of
              Inl e \<Rightarrow> Some (Inl e, s)
            | Inr row \<Rightarrow> Some (Inr (n\<lparr>node_instance := row\<rparr>), s))
         else if node_action n = Some ''update'' \<or> node_action n = Some ''create_or_update'' then
           (case expand_lookups (map fst query_filter) query_filter of
              Inl e \<Rightarrow> Some (Inl e, s)
            | Inr q1 \<Rightarrow>
                (case resolve_children mk ev (node_model_class n) q1 q1 field_values s of
                   None \<Rightarrow> None
                 | Some (Inl e, s1) \<Rightarrow> Some (Inl e, s1)
                 | Some (Inr (q2, fv2), s1) \<Rightarrow>
                     (case lookup_or_create n q2 fv2 s1 of
                        Inl e \<Rightarrow> Some (Inl e, s1)
                      | Inr n' \<Rightarrow> Some (Inr n', s1))))
         else if node_action n \<noteq> Some ''create'' then
           Some (Inl (DesignImplementationError
                  (UnknownDatabaseAction (case node_action n of None \<Rightarrow> ''None'' | Some a \<Rightarrow> a))), s)
         else
           (case construct n of
              Inl e \<Rightarrow> Some (Inl e, s)
            | Inr n' \<Rightarrow> Some (Inr n', s)))"

section \<open>ModelInstance: construction\<close>

text \<open>
  The node as \<^verbatim>\<open>__init__\<close> sets it up. The relationship manager is the one given, or
  \<^verbatim>\<open>self.model_class.objects\<close>; the source assigns it after the parsing, which does
  not read it.
\<close>

definition init_node :: "model_class \<Rightarrow> (string \<times> val) list \<Rightarrow> string option \<Rightarrow> node" where
  "init_node mc attrs manager =
     \<lparr>node_model_class = mc, node_instance = VNone, node_attributes = attrs,
      node_custom_fields = VDict [], node_filter = [], node_action = None, node_kwargs = [],
      node_created = False,
      node_relationship_manager = (case manager of None \<Rightarrow> mc_name mc | Some m \<Rightarrow> m),
      node_signals = (\<lambda>sig. []), node_setattrs = []\<rparr>"

text \<open>
  \<^verbatim>\<open>create_child\<close> around the constructor: the two Django exceptions become
  \<^verbatim>\<open>DesignImplementationError\<close>.
\<close>

definition create_child :: "child_maker \<Rightarrow> child_maker" where
  "create_child ctor mc attrs manager s =
     (case ctor mc attrs manager s of
        None \<Rightarrow> None
      | Some (Inl e, s') \<Rightarrow>
          (if e = MultipleObjectsReturned
             then Some (Inl (DesignImplementationError (ExpectedExactlyOne (mc_name mc))), s')
           else if e = ObjectDoesNotExist
             then Some (Inl (DesignImplementationError (CouldNotFind (mc_name mc))), s')
           else Some (Inl e, s'))
      | Some (Inr n, s') \<Rightarrow> Some (Inr n, s'))"

text \<open>
  \<^verbatim>\<open>ModelInstance.__init__\<close>. The recursion through \<^verbatim>\<open>create_child\<close> follows
  values that extensions produce, so the construction has fuel; \<open>None\<close> is the
  construction that has not ended when the fuel is used up.
\<close>

fun new_model_instance ::
  "nat \<Rightarrow> env \<Rightarrow> model_class \<Rightarrow> (string \<times> val) list \<Rightarrow> string option \<Rightarrow> state \<Rightarrow>
   ((error + node) \<times> state) option" where
  "new_model_instance 0 ev mc attrs manager s = None"
| "new_model_instance (Suc fuel) ev mc attrs manager s =
     (case parse_attributes fuel (init_node mc attrs manager) s of
        None \<Rightarrow> None
      | Some (Inl e, s1) \<Rightarrow> Some (Inl e, s1)
      | Some (Inr n1, s1) \<Rightarrow>
          (case load_instance
                  (create_child (\<lambda>c a m st. new_model_instance fuel ev c a (Some m) st))
                  ev n1 s1 of
             None \<Rightarrow> None
           | Some (Inl e, s2) \<Rightarrow>
               (if e = ObjectDoesNotExist then Some (Inl DoesNotExistError, s2)
                else if e = MultipleObjectsReturned then Some (Inl MultipleObjectsReturnedError, s2)
                else Some (Inl e, s2))
           | Some (Inr n2, s2) \<Rightarrow> Some (update_fields ev n2 s2)))"

section \<open>Builder\<close>

text \<open>Python truth of a value, for \<^verbatim>\<open>key in self.model_map and value\<close>.\<close>

fun truthy :: "val \<Rightarrow> bool" where
  "truthy VNone = False"
| "truthy (VBool b) = b"
| "truthy (VInt i) = (i \<noteq> 0)"
| "truthy (VStr s) = (s \<noteq> [])"
| "truthy (VList xs) = (xs \<noteq> [])"
| "truthy (VDict kvs) = (kvs \<noteq> [])"
| "truthy v = True"

text \<open>The body of both branches of \<^verbatim>\<open>_create_objects\<close>: construct the node, then save it.\<close>

definition create_object ::
  "nat \<Rightarrow> env \<Rightarrow> model_class \<Rightarrow> val \<Rightarrow> state \<Rightarrow> ((error + unit) \<times> state) option" where
  "create_object fuel ev mc obj s =
     (case obj of
        VDict attrs \<Rightarrow>
          (case new_model_instance fuel ev mc attrs None s of
             None \<Rightarrow> None
           | Some (Inl e, s1) \<Rightarrow> Some (Inl e, s1)
           | Some (Inr model, s1) \<Rightarrow>
               (case save model s1 of
                  (Inl e, s2) \<Rightarrow> Some (Inl e, s2)
                | (Inr model', s2) \<Rightarrow> Some (Inr (), s2)))
      | _ \<Rightarrow> Some (Inl TypeError, s))"

fun create_object_list ::
  "nat \<Rightarrow> env \<Rightarrow> model_class \<Rightarrow> val list \<Rightarrow> state \<Rightarrow> ((error + unit) \<times> state) option" where
  "create_object_list fuel ev mc [] s = Some (Inr (), s)"
| "create_object_list fuel ev mc (obj # objs) s =
     (case create_object fuel ev mc obj s of
        None \<Rightarrow> None
      | Some (Inl e, s1) \<Rightarrow> Some (Inl e, s1)
      | Some (Inr u, s1) \<Rightarrow> create_object_list fuel ev mc objs s1)"

text \<open>
  \<^verbatim>\<open>Builder._create_objects\<close>: a dict is one object, a list is a sequence of
  objects (an element that is no mapping makes \<^verbatim>\<open>{**attributes}\<close> raise
  \<^verbatim>\<open>TypeError\<close>), anything else is passed over.
\<close>

definition create_objects ::
  "nat \<Rightarrow> env \<Rightarrow> model_class \<Rightarrow> val \<Rightarrow> state \<Rightarrow> ((error + unit) \<times> state) option" where
  "create_objects fuel ev mc objects s =
     (case objects of
        VDict attrs \<Rightarrow> create_object fuel ev mc objects s
      | VList objs \<Rightarrow> create_object_list fuel ev mc objs s
      | _ \<Rightarrow> Some (Inr (), s))"

text \<open>The loop of \<^verbatim>\<open>implement_design\<close> over \<^verbatim>\<open>design.items()\<close>.\<close>

fun create_all ::
  "nat \<Rightarrow> env \<Rightarrow> (string \<times> val) list \<Rightarrow> state \<Rightarrow> ((error + unit) \<times> state) option" where
  "create_all fuel ev [] s = Some (Inr (), s)"
| "create_all fuel ev ((key, v) # items) s =
     (case map_of (model_map ev) key of
        None \<Rightarrow> Some (Inl (DesignImplementationError (UnknownModelKey key)), s)
      | Some mc \<Rightarrow>
          (if truthy v then
             (case create_objects fuel ev mc v s of
                None \<Rightarrow> None
              | Some (Inl e, s1) \<Rightarrow> Some (Inl e, s1)
              | Some (Inr u, s1) \<Rightarrow> create_all fuel ev items s1)
           else Some (Inl (DesignImplementationError (UnknownModelKey key)), s)))"

text \<open>
  What the hooks of the extensions do is outside \<^verbatim>\<open>design.py\<close>; the model records
  each call: of \<^verbatim>\<open>Builder.commit\<close>, of \<^verbatim>\<open>Builder.roll_back\<close>, and of an
  extension's \<^verbatim>\<open>commit\<close> or \<^verbatim>\<open>roll_back\<close> hook (by the position of the
  extension in the registry).
\<close>

datatype event = CommitCalled | RollBackCalled | HookCommit nat | HookRollBack nat

text \<open>
  \<^verbatim>\<open>for extn in self.extensions["extensions"]: if hasattr(extn["object"], "commit"):
  extn["object"].commit()\<close>. \<^verbatim>\<open>hasattr(None, "commit")\<close> is false, so an entry that
  was never instantiated is passed over. A hook that raises ends the loop.
\<close>

fun commit_hooks :: "(nat \<times> extension) list \<Rightarrow> event list \<Rightarrow> error option \<times> event list" where
  "commit_hooks [] evs = (None, evs)"
| "commit_hooks ((i, x) # rest) evs =
     (if ext_object x \<and> ext_has_commit x then
        (case ext_commit_raises x of
           Some e \<Rightarrow> (Some e, evs @ [HookCommit i])
         | None \<Rightarrow> commit_hooks rest (evs @ [HookCommit i]))
      else commit_hooks rest evs)"

fun roll_back_hooks :: "(nat \<times> extension) list \<Rightarrow> event list \<Rightarrow> error option \<times> event list" where
  "roll_back_hooks [] evs = (None, evs)"
| "roll_back_hooks ((i, x) # rest) evs =
     (if ext_object x \<and> ext_has_roll_back x then
        (case ext_roll_back_raises x of
           Some e \<Rightarrow> (Some e, evs @ [HookRollBack i])
         | None \<Rightarrow> roll_back_hooks rest (evs @ [HookRollBack i]))
      else roll_back_hooks rest evs)"

text \<open>\<^verbatim>\<open>Builder.commit\<close> and \<^verbatim>\<open>Builder.roll_back\<close>\<close>

definition commit :: "extension list \<Rightarrow> event list \<Rightarrow> error option \<times> event list" where
  "commit exts evs = commit_hooks (enumerate 0 exts) (evs @ [CommitCalled])"

definition roll_back :: "extension list \<Rightarrow> event list \<Rightarrow> error option \<times> event list" where
  "roll_back exts evs = roll_back_hooks (enumerate 0 exts) (evs @ [RollBackCalled])"

text \<open>
  The handler \<^verbatim>\<open>except Exception as ex: self.roll_back(); raise ex\<close>: when
  \<^verbatim>\<open>roll_back\<close> raises in turn, that error is the one that leaves the handler.
\<close>

definition handle_exception ::
  "error \<Rightarrow> state \<Rightarrow> event list \<Rightarrow> (error + unit) \<times> state \<times> event list" where
  "handle_exception ex s evs =
     (case roll_back (extensions s) evs of
        (None, evs') \<Rightarrow> (Inl ex, s, evs')
      | (Some e', evs') \<Rightarrow> (Inl e', s, evs'))"

text \<open>
  \<^verbatim>\<open>Builder.implement_design\<close>. The test \<^verbatim>\<open>if not design\<close> and its
  \<^verbatim>\<open>raise\<close> stand before the \<^verbatim>\<open>try\<close>.
\<close>

definition implement_design ::
  "nat \<Rightarrow> env \<Rightarrow> (string \<times> val) list \<Rightarrow> bool \<Rightarrow> state \<Rightarrow> event list \<Rightarrow>
   ((error + unit) \<times> state \<times> event list) option" where
  "implement_design fuel ev design do_commit s evs =
     (if design = [] then Some (Inl (DesignImplementationError EmptyDesign), s, evs)
      else
        (case create_all fuel ev design s of
           None \<Rightarrow> None
         | Some (Inl ex, s1) \<Rightarrow> Some (handle_exception ex s1 evs)
         | Some (Inr u, s1) \<Rightarrow>
             (case (if do_commit then commit (extensions s1) evs
                    else roll_back (extensions s1) evs) of
                (None, evs1) \<Rightarrow> Some (Inr (), s1, evs1)
              | (Some ex, evs1) \<Rightarrow> Some (handle_exception ex s1 evs1))))"

text \<open>The number of calls of \<^verbatim>\<open>Builder.roll_back\<close> that an event list records.\<close>

definition roll_back_calls :: "event list \<Rightarrow> nat" where
  "roll_back_calls evs = count_list evs RollBackCalled"

text \<open>
  An entry of the registry (with its position) whose hook the loops of
  \<^verbatim>\<open>commit\<close> and \<^verbatim>\<open>roll_back\<close> call: the class has been instantiated and
  defines the hook.
\<close>

definition has_commit_hook :: "nat \<times> extension \<Rightarrow> bool" where
  "has_commit_hook ix = (ext_object (snd ix) \<and> ext_has_commit (snd ix))"

definition has_roll_back_hook :: "nat \<times> extension \<Rightarrow> bool" where
  "has_roll_back_hook ix = (ext_object (snd ix) \<and> ext_has_roll_back (snd ix))"

section \<open>A small installation for concrete runs\<close>

text \<open>
  Two model classes, a site with a foreign key to a region, with plain field
  descriptors; a Builder without extensions; an empty database and one that holds the
  region \<^verbatim>\<open>us-east\<close>.
\<close>

definition demo_site :: model_class where
  "demo_site =
     \<lparr>mc_name = ''Site'', mc_fields = [''name'', ''description'', ''region''],
      mc_custom_relationships = [],
      mc_model_attrs = [''name'', ''description'', ''region'', ''objects'', ''pk''],
      mc_relations = [(''region'', ''Region'')],
      mc_init_names = [''name'', ''description'', ''region''],
      mc_full_clean = (\<lambda>v. True)\<rparr>"

definition demo_region :: model_class where
  "demo_region =
     \<lparr>mc_name = ''Region'', mc_fields = [''name'', ''slug''],
      mc_custom_relationships = [],
      mc_model_attrs = [''name'', ''slug'', ''objects'', ''pk''],
      mc_relations = [],
      mc_init_names = [''name'', ''slug''],
      mc_full_clean = (\<lambda>v. True)\<rparr>"

definition demo_env :: env where
  "demo_env =
     \<lparr>model_map = [(''sites'', demo_site), (''regions'', demo_region)],
      model_class_index = [(''Site'', demo_site), (''Region'', demo_region)],
      field_set = simple_field_set\<rparr>"

definition empty_state :: state where
  "empty_state = \<lparr>extensions = [], journal = new_journal, db = [], next_pk = 1\<rparr>"

definition demo_state :: state where
  "demo_state =
     \<lparr>extensions = [], journal = new_journal,
      db = [VModel ''Region'' (Some 1) [(''slug'', VStr ''us-east'')] []], next_pk = 2\<rparr>"

text \<open>
  An extension class that defines both hooks, as the registry holds it after
  \<^verbatim>\<open>Builder.__init__\<close>: not yet instantiated.
\<close>

definition demo_extension :: extension where
  "demo_extension =
     \<lparr>ext_tag = ''git_context'', ext_is_attribute = True, ext_is_value = False,
      ext_value = (\<lambda>arg. Inr VNone), ext_attribute = (\<lambda>args v. Inr ResNone),
      ext_has_commit = True, ext_commit_raises = None,
      ext_has_roll_back = True, ext_roll_back_raises = None,
      ext_object = False\<rparr>"

section \<open>Theorems\<close>

subsection \<open>Journal\<close>

lemma journal_inv_new: "journal_inv new_journal"
  by (simp add: journal_inv_def new_journal_def in_created_def in_updated_def)

lemma in_created_log:
  "in_created (journal_log j t pk c) t' pk' =
     (in_created j t' pk' \<or> (pk \<notin> index j \<and> c \<and> t' = t \<and> pk' = pk))"
  by (auto simp: journal_log_def in_created_def index_add_def split: option.splits)

lemma in_updated_log:
  "in_updated (journal_log j t pk c) t' pk' =
     (in_updated j t' pk' \<or> (pk \<notin> index j \<and> \<not> c \<and> t' = t \<and> pk' = pk))"
  by (auto simp: journal_log_def in_updated_def index_add_def split: option.splits)

lemma index_log: "index (journal_log j t pk c) = insert pk (index j)"
  by (auto simp: journal_log_def)

lemma journal_inv_log: "journal_inv j \<Longrightarrow> journal_inv (journal_log j t pk c)"
  unfolding journal_inv_def in_created_log in_updated_log index_log
  by blast

lemma journal_inv_log_all: "journal_inv j \<Longrightarrow> journal_inv (log_all j calls)"
  unfolding log_all_def
  by (induction calls arbitrary: j) (simp_all add: journal_inv_log)

lemma journal_log_visited: "pk \<in> index j \<Longrightarrow> journal_log j t pk c = j"
  by (simp add: journal_log_def)

text \<open>
  C8. After any sequence of \<^verbatim>\<open>Journal.log\<close> calls on a new Journal, an identity is
  never in both \<open>created\<close> and \<open>updated\<close> (under any model classes), it is under at most
  one model class within \<open>created\<close> and within \<open>updated\<close>, and logging an identity that is
  already in \<open>index\<close> leaves the Journal as it is. (\<open>index\<close> is a set, so an identity is
  in it at most once.)
\<close>

theorem journal_log_dedup:
  "(in_created (log_all new_journal calls) t pk \<longrightarrow> \<not> in_updated (log_all new_journal calls) t' pk)
   \<and> (in_created (log_all new_journal calls) t pk \<longrightarrow> in_created (log_all new_journal calls) t' pk \<longrightarrow> t = t')
   \<and> (in_updated (log_all new_journal calls) t pk \<longrightarrow> in_updated (log_all new_journal calls) t' pk \<longrightarrow> t = t')
   \<and> (pk \<in> index (log_all new_journal calls) \<longrightarrow>
        journal_log (log_all new_journal calls) t pk c = log_all new_journal calls)"
  using journal_inv_log_all [OF journal_inv_new, of calls] journal_log_visited
  unfolding journal_inv_def by blast

theorem journal_log_dedup_witness:
  "in_created (log_all new_journal [(''Site'', Some 1, True), (''Site'', Some 1, False)]) ''Site'' (Some 1)
   \<and> \<not> in_updated (log_all new_journal [(''Site'', Some 1, True), (''Site'', Some 1, False)]) ''Site'' (Some 1)
   \<and> Some 1 \<in> index (log_all new_journal [(''Site'', Some 1, True), (''Site'', Some 1, False)])
   \<and> journal_log (log_all new_journal [(''Site'', Some 1, True), (''Site'', Some 1, False)]) ''Site'' (Some 1) False
       = log_all new_journal [(''Site'', Some 1, True), (''Site'', Some 1, False)]"
  using journal_log_dedup [of "[(''Site'', Some 1, True), (''Site'', Some 1, False)]" "''Site''" "Some 1" "''Site''" False]
  by (simp add: log_all_def journal_log_def new_journal_def index_add_def in_created_def in_updated_def)

subsection \<open>Value resolution\<close>

lemma split_colon1_no_colon:
  "CHR '':'' \<notin> set s \<Longrightarrow> split_colon1 (lstrip_bang s) = [lstrip_bang s]"
  unfolding split_colon1_def lstrip_bang_def
  using set_dropWhileD by fastforce

text \<open>
  C10. \<^verbatim>\<open>resolve_value\<close> on a string that starts with \<^verbatim>\<open>!\<close> and has no colon
  raises \<^verbatim>\<open>ValueError\<close> (the tuple assignment has one element to unpack), before any
  extension is looked up; the error is no \<^verbatim>\<open>DesignImplementationError\<close>.
\<close>

theorem resolve_value_colon_free:
  "startswith_bang s \<Longrightarrow> CHR '':'' \<notin> set s \<Longrightarrow>
     resolve_value exts (VStr s) = (Inl ValueError, exts)
     \<and> fst (resolve_value exts (VStr s)) \<noteq> Inl (DesignImplementationError (UnknownAttributeExtension s))"
  by (simp add: resolve_value_def split_colon1_no_colon)

theorem resolve_value_colon_free_witness:
  "startswith_bang ''!ref'' \<and> CHR '':'' \<notin> set ''!ref''
   \<and> resolve_value [] (VStr ''!ref'') = (Inl ValueError, [])"
  using resolve_value_colon_free [of "''!ref''" "[]"] by simp

lemma resolve_list_store_frame:
  "n \<le> a \<Longrightarrow> take n (snd (snd (resolve_list_store exts h a items))) = take n h"
proof (induction items arbitrary: exts h)
  case Nil
  then show ?case by simp
next
  case (Cons p items)
  obtain i item where p: "p = (i, item)" by (cases p)
  show ?case
  proof (cases "resolve_value exts item")
    case (Pair r exts')
    then show ?thesis using Cons p by (cases r) simp_all
  qed
qed

lemma resolve_items_store_frame:
  "n \<le> a \<Longrightarrow> take n (snd (snd (resolve_items_store exts h a items))) = take n h"
proof (induction items arbitrary: exts h)
  case Nil
  then show ?case by simp
next
  case (Cons p items)
  obtain k item where p: "p = (k, item)" by (cases p)
  show ?case
  proof (cases "resolve_value exts item")
    case (Pair r exts')
    then show ?thesis using Cons p by (cases r) simp_all
  qed
qed

lemma resolve_values_store_frame:
  "take (length h) (snd (snd (resolve_values_store exts h v))) = h"
proof (cases v)
  case (VRef a)
  show ?thesis
  proof (cases "a < length h")
    case True
    note a = this
    show ?thesis
    proof (cases "h ! a")
      case (VList xs)
      have "take (length h)
              (snd (snd (resolve_list_store exts (h @ [VList xs]) (length h) (enumerate 0 xs)))) = h"
        using resolve_list_store_frame [of "length h" "length h"] by simp
      then show ?thesis using VRef a VList
        by (auto simp: resolve_values_store_def split: prod.splits option.splits)
    next
      case (VDict kvs)
      have "take (length h)
              (snd (snd (resolve_items_store exts (h @ [VDict kvs]) (length h) kvs))) = h"
        using resolve_items_store_frame [of "length h" "length h"] by simp
      then show ?thesis using VRef a VDict
        by (auto simp: resolve_values_store_def split: prod.splits option.splits)
    qed (simp_all add: resolve_values_store_def VRef a)
  next
    case False
    then show ?thesis using VRef by (simp add: resolve_values_store_def)
  qed
qed (simp_all add: resolve_values_store_def split: prod.splits)

lemma resolve_values_scalar:
  "unmarked_scalar v \<Longrightarrow> resolve_values exts v = (Inr v, exts)"
  by (cases v) (simp_all add: unmarked_scalar_def resolve_values_def resolve_value_def)

text \<open>
  On success the copy holds the items resolved one by one, in place, and the result is
  the address of the copy.
\<close>

lemma resolve_list_store_agrees:
  "a < length h \<Longrightarrow> h ! a = VList (pre @ xs) \<Longrightarrow>
   resolve_list exts xs = (Inr ys, exts') \<Longrightarrow>
   resolve_list_store exts h a (enumerate (length pre) xs) = (None, exts', h[a := VList (pre @ ys)])"
proof (induction xs arbitrary: exts h pre ys)
  case Nil
  then show ?case using list_update_id [of h a] by auto
next
  case (Cons x xs)
  from Cons.prems(3) obtain y exts1 where x: "resolve_value exts x = (Inr y, exts1)"
    by (auto split: prod.splits sum.splits)
  with Cons.prems(3) obtain ys' where
    xs: "resolve_list exts1 xs = (Inr ys', exts')" and ys: "ys = y # ys'"
    by (auto split: prod.splits sum.splits)
  let ?h = "h[a := VList ((pre @ [y]) @ xs)]"
  have "resolve_list_store exts1 ?h a (enumerate (length (pre @ [y])) xs)
          = (None, exts', ?h[a := VList ((pre @ [y]) @ ys')])"
    using Cons.prems(1) by (intro Cons.IH [OF _ _ xs]) simp_all
  then show ?case using x ys Cons.prems(1,2) by simp
qed

lemma resolve_values_store_list:
  assumes "a < length h" and "h ! a = VList xs"
      and "resolve_list exts xs = (Inr ys, exts')"
  shows "resolve_values_store exts h (VRef a) = (Inr (VRef (length h)), exts', h @ [VList ys])"
proof -
  have "resolve_list_store exts (h @ [VList xs]) (length h) (enumerate (length ([]::val list)) xs)
          = (None, exts', (h @ [VList xs])[length h := VList ([] @ ys)])"
    by (rule resolve_list_store_agrees [OF _ _ assms(3)]) simp_all
  then show ?thesis using assms(1,2) by (simp add: resolve_values_store_def)
qed

lemma dict_set_middle:
  "k \<notin> fst ` set pre \<Longrightarrow> dict_set (pre @ (k, x) # rest) k y = pre @ (k, y) # rest"
  by (induction pre) auto

lemma resolve_items_store_agrees:
  "a < length h \<Longrightarrow> h ! a = VDict (pre @ kvs) \<Longrightarrow> distinct (map fst (pre @ kvs)) \<Longrightarrow>
   resolve_items exts kvs = (Inr ys, exts') \<Longrightarrow>
   resolve_items_store exts h a kvs = (None, exts', h[a := VDict (pre @ ys)])"
proof (induction kvs arbitrary: exts h pre ys)
  case Nil
  then show ?case using list_update_id [of h a] by auto
next
  case (Cons p kvs)
  obtain k x where p: "p = (k, x)" by (cases p)
  from Cons.prems(4) p obtain y exts1 where x: "resolve_value exts x = (Inr y, exts1)"
    by (auto split: prod.splits sum.splits)
  with Cons.prems(4) p obtain ys' where
    rest: "resolve_items exts1 kvs = (Inr ys', exts')" and ys: "ys = (k, y) # ys'"
    by (auto split: prod.splits sum.splits)
  have fresh: "k \<notin> fst ` set pre" using Cons.prems(3) p by auto
  let ?h = "h[a := VDict ((pre @ [(k, y)]) @ kvs)]"
  have step: "h[a := store_dict_set (h ! a) k y] = ?h"
    using Cons.prems(2) p dict_set_middle [OF fresh] by simp
  have d: "distinct (map fst ((pre @ [(k, y)]) @ kvs))" using Cons.prems(3) p by auto
  have "resolve_items_store exts1 ?h a kvs = (None, exts', ?h[a := VDict ((pre @ [(k, y)]) @ ys')])"
    using Cons.prems(1) d by (intro Cons.IH [OF _ _ _ rest]) simp_all
  then show ?case using x ys p step by simp
qed

lemma resolve_values_store_dict:
  assumes "a < length h" and "h ! a = VDict kvs" and "distinct (map fst kvs)"
      and "resolve_items exts kvs = (Inr ys, exts')"
  shows "resolve_values_store exts h (VRef a) = (Inr (VRef (length h)), exts', h @ [VDict ys])"
proof -
  have "resolve_items_store exts (h @ [VDict kvs]) (length h) kvs
          = (None, exts', (h @ [VDict kvs])[length h := VDict ([] @ ys)])"
    using assms(3) by (intro resolve_items_store_agrees [OF _ _ _ assms(4)]) simp_all
  then show ?thesis using assms(1,2) by (simp add: resolve_values_store_def)
qed

text \<open>
  C9, as the code has it. \<^verbatim>\<open>resolve_values\<close> leaves every object that exists
  before the call as it is: the store after the call begins with the store before it,
  whatever the argument and whether the call returns or raises. For a list and for a
  dict the result is a new object that holds the items resolved one by one. A scalar
  that is no list, no dict and no string starting with \<^verbatim>\<open>!\<close> is returned
  unchanged.
\<close>

theorem resolve_values_copies:
  "take (length h) (snd (snd (resolve_values_store exts h v))) = h
   \<and> (unmarked_scalar v \<longrightarrow> resolve_values_store exts h v = (Inr v, exts, h))
   \<and> (a < length h \<and> h ! a = VList xs \<and> resolve_list exts xs = (Inr ys, exts') \<longrightarrow>
        resolve_values_store exts h (VRef a) = (Inr (VRef (length h)), exts', h @ [VList ys]))
   \<and> (a < length h \<and> h ! a = VDict kvs \<and> distinct (map fst kvs)
        \<and> resolve_items exts kvs = (Inr kys, exts') \<longrightarrow>
        resolve_values_store exts h (VRef a) = (Inr (VRef (length h)), exts', h @ [VDict kys]))"
proof -
  have "unmarked_scalar v \<Longrightarrow> resolve_values_store exts h v = (Inr v, exts, h)"
    using resolve_values_scalar [of v exts]
    by (cases v) (simp_all add: resolve_values_store_def unmarked_scalar_def)
  then show ?thesis
    using resolve_values_store_frame resolve_values_store_list resolve_values_store_dict
    by blast
qed

theorem resolve_values_copies_witness:
  "unmarked_scalar (VStr ''HQ'')
   \<and> resolve_values_store [] [VList [VStr ''a'', VInt 2]] (VStr ''HQ'')
       = (Inr (VStr ''HQ''), [], [VList [VStr ''a'', VInt 2]])
   \<and> resolve_values_store [] [VList [VStr ''a'', VInt 2]] (VRef 0)
       = (Inr (VRef 1), [], [VList [VStr ''a'', VInt 2], VList [VStr ''a'', VInt 2]])
   \<and> resolve_values_store [] [VDict [(''name'', VStr ''a''), (''vid'', VInt 2)]] (VRef 0)
       = (Inr (VRef 1), [], [VDict [(''name'', VStr ''a''), (''vid'', VInt 2)],
                            VDict [(''name'', VStr ''a''), (''vid'', VInt 2)]])"
  using resolve_values_copies [of "[VList [VStr ''a'', VInt 2]]" "[]" "VStr ''HQ''" 0
          "[VStr ''a'', VInt 2]" "[VStr ''a'', VInt 2]" "[]" "[]" "[]"]
        resolve_values_copies [of "[VDict [(''name'', VStr ''a''), (''vid'', VInt 2)]]" "[]" "VRef 0" 0
          "[]" "[]" "[]" "[(''name'', VStr ''a''), (''vid'', VInt 2)]"
          "[(''name'', VStr ''a''), (''vid'', VInt 2)]"]
  by (simp add: unmarked_scalar_def resolve_values_store_def resolve_value_def enumerate_eq_zip upt_rec)

text \<open>
  The claim C9 as stated fails for a scalar: \<^verbatim>\<open>"!ref"\<close> has no colon, so it is
  no value extension reference \<^verbatim>\<open>!tag:arg\<close>, and \<^verbatim>\<open>resolve_values\<close> raises
  \<^verbatim>\<open>ValueError\<close> instead of returning it.
\<close>

theorem colon_free_scalar_not_returned:
  "claimed_scalar (VStr ''!ref'')
   \<and> resolve_values [] (VStr ''!ref'') = (Inl ValueError, [])
   \<and> resolve_values_store [] [] (VStr ''!ref'') = (Inl ValueError, [], [])"
  by (simp add: claimed_scalar_def value_reference_def resolve_values_store_def resolve_values_def
      resolve_value_def split_colon1_def lstrip_bang_def)

subsection \<open>Commit and roll-back hooks\<close>

lemma commit_hooks_quiet:
  "\<forall>ix \<in> set ixs. has_commit_hook ix \<longrightarrow> ext_commit_raises (snd ix) = None \<Longrightarrow>
   commit_hooks ixs evs
     = (None, evs @ map (\<lambda>ix. HookCommit (fst ix)) (filter has_commit_hook ixs))"
  by (induction ixs arbitrary: evs) (auto simp: has_commit_hook_def)

lemma roll_back_hooks_quiet:
  "\<forall>ix \<in> set ixs. has_roll_back_hook ix \<longrightarrow> ext_roll_back_raises (snd ix) = None \<Longrightarrow>
   roll_back_hooks ixs evs
     = (None, evs @ map (\<lambda>ix. HookRollBack (fst ix)) (filter has_roll_back_hook ixs))"
  by (induction ixs arbitrary: evs) (auto simp: has_roll_back_hook_def)

text \<open>
  C5, as the code has it. When none of the hooks that are called raises,
  \<^verbatim>\<open>Builder.commit\<close> calls, in registration order, the \<^verbatim>\<open>commit\<close> hook of
  exactly the registered extensions that have been instantiated (by
  \<^verbatim>\<open>get_extension\<close>) and define one, and \<^verbatim>\<open>Builder.roll_back\<close> does the same
  with the \<^verbatim>\<open>roll_back\<close> hooks. An extension that was registered and never
  dispatched to is not instantiated, and its hooks are not called.
\<close>

theorem hooks_of_instantiated_extensions:
  assumes "\<forall>ix \<in> set (enumerate 0 exts). has_commit_hook ix \<longrightarrow> ext_commit_raises (snd ix) = None"
      and "\<forall>ix \<in> set (enumerate 0 exts). has_roll_back_hook ix \<longrightarrow> ext_roll_back_raises (snd ix) = None"
  shows "commit exts evs =
           (None, evs @ [CommitCalled] @
                  map (\<lambda>ix. HookCommit (fst ix)) (filter has_commit_hook (enumerate 0 exts)))
         \<and> roll_back exts evs =
           (None, evs @ [RollBackCalled] @
                  map (\<lambda>ix. HookRollBack (fst ix)) (filter has_roll_back_hook (enumerate 0 exts)))"
  using commit_hooks_quiet [OF assms(1)] roll_back_hooks_quiet [OF assms(2)]
  by (simp add: commit_def roll_back_def)

theorem hooks_of_instantiated_extensions_witness:
  "commit [demo_extension\<lparr>ext_object := True\<rparr>, demo_extension] []
     = (None, [CommitCalled, HookCommit 0])
   \<and> roll_back [demo_extension\<lparr>ext_object := True\<rparr>, demo_extension] []
     = (None, [RollBackCalled, HookRollBack 0])"
  using hooks_of_instantiated_extensions
          [of "[demo_extension\<lparr>ext_object := True\<rparr>, demo_extension]" "[]"]
  by (simp add: demo_extension_def has_commit_hook_def has_roll_back_hook_def
      enumerate_eq_zip upt_rec)

text \<open>
  The claim C5 as stated fails: a registered extension that defines both hooks and was
  never dispatched to gets neither hook called.
\<close>

theorem registered_extension_never_dispatched:
  "ext_has_commit demo_extension \<and> ext_has_roll_back demo_extension
   \<and> snd (commit [demo_extension] []) = [CommitCalled]
   \<and> snd (roll_back [demo_extension] []) = [RollBackCalled]"
  by (simp add: demo_extension_def commit_def roll_back_def enumerate_eq_zip upt_rec)

subsection \<open>implement_design and roll_back\<close>

lemma commit_hooks_roll_back_calls:
  "roll_back_calls (snd (commit_hooks ixs evs)) = roll_back_calls evs"
  by (induction ixs arbitrary: evs) (auto simp: roll_back_calls_def split: option.splits)

lemma roll_back_hooks_roll_back_calls:
  "roll_back_calls (snd (roll_back_hooks ixs evs)) = roll_back_calls evs"
  by (induction ixs arbitrary: evs) (auto simp: roll_back_calls_def split: option.splits)

lemma roll_back_once: "roll_back_calls (snd (roll_back exts evs)) = Suc (roll_back_calls evs)"
  unfolding roll_back_def roll_back_hooks_roll_back_calls
  by (simp add: roll_back_calls_def)

lemma commit_no_roll_back: "roll_back_calls (snd (commit exts evs)) = roll_back_calls evs"
  unfolding commit_def commit_hooks_roll_back_calls
  by (simp add: roll_back_calls_def)

lemma handle_exception_once:
  "roll_back_calls (snd (snd (handle_exception ex s evs))) = Suc (roll_back_calls evs)"
  using roll_back_once [of "extensions s" evs]
  by (auto simp: handle_exception_def split: prod.splits option.splits)

lemma handle_exception_reraises:
  "fst (roll_back (extensions s) evs) = None \<Longrightarrow> fst (handle_exception ex s evs) = Inl ex"
  by (auto simp: handle_exception_def split: prod.splits option.splits)

text \<open>
  C4, as the code has it. For a design that is not empty, when the loop over the
  entries raises an error, or when the loop ends and \<^verbatim>\<open>commit()\<close> raises one,
  \<^verbatim>\<open>implement_design\<close> runs the exception handler: \<^verbatim>\<open>roll_back()\<close> is called
  exactly once between the start of the call and the propagation of the error, and
  when that \<^verbatim>\<open>roll_back()\<close> returns, the error that leaves
  \<^verbatim>\<open>implement_design\<close> is the original one.
\<close>

theorem implement_design_roll_back_once:
  assumes "design \<noteq> []"
      and "create_all fuel ev design s = Some (Inl ex, s1) \<and> evs1 = evs
           \<or> create_all fuel ev design s = Some (Inr (), s1) \<and> do_commit
             \<and> commit (extensions s1) evs = (Some ex, evs1)"
  shows "implement_design fuel ev design do_commit s evs = Some (handle_exception ex s1 evs1)
         \<and> roll_back_calls (snd (snd (handle_exception ex s1 evs1))) = Suc (roll_back_calls evs)
         \<and> (fst (roll_back (extensions s1) evs1) = None \<longrightarrow>
              fst (handle_exception ex s1 evs1) = Inl ex)"
proof -
  have call: "implement_design fuel ev design do_commit s evs = Some (handle_exception ex s1 evs1)"
    using assms by (auto simp: implement_design_def)
  have "roll_back_calls evs1 = roll_back_calls evs"
    using assms(2) commit_no_roll_back [of "extensions s1" evs] by auto
  then show ?thesis
    using call handle_exception_once [of ex s1 evs1] handle_exception_reraises by simp
qed

lemmas demo_defs = demo_site_def demo_region_def demo_env_def empty_state_def demo_state_def
  new_journal_def

theorem implement_design_roll_back_once_witness:
  "[(''devices'', VDict [(''name'', VStr ''sw1'')])] \<noteq> []
   \<and> create_all 3 demo_env [(''devices'', VDict [(''name'', VStr ''sw1'')])] empty_state
       = Some (Inl (DesignImplementationError (UnknownModelKey ''devices'')), empty_state)
   \<and> implement_design 3 demo_env [(''devices'', VDict [(''name'', VStr ''sw1'')])] True empty_state []
       = Some (Inl (DesignImplementationError (UnknownModelKey ''devices'')), empty_state,
               [RollBackCalled])
   \<and> roll_back_calls [RollBackCalled] = Suc (roll_back_calls [])"
  using implement_design_roll_back_once
          [of "[(''devices'', VDict [(''name'', VStr ''sw1'')])]" 3 demo_env empty_state
              "DesignImplementationError (UnknownModelKey ''devices'')" empty_state "[]" "[]" True]
  by (simp add: demo_defs handle_exception_def roll_back_def roll_back_calls_def)

text \<open>
  The claim C4 as stated fails on the empty design: the error is raised before the
  \<^verbatim>\<open>try\<close>, and \<^verbatim>\<open>roll_back()\<close> is not called.
\<close>

theorem empty_design_no_roll_back:
  "(case implement_design 3 demo_env [] True empty_state [] of
      Some (Inl e, s, evs) \<Rightarrow> e = DesignImplementationError EmptyDesign \<and> roll_back_calls evs = 0
    | _ \<Rightarrow> False)"
  by (simp add: implement_design_def roll_back_calls_def)

subsection \<open>Runs of the node resolver on concrete designs\<close>

lemmas parse_defs = parse_attributes_def parse_key_def parse_directive_def set_action_def
  init_node_def resolve_values_def resolve_value_def get_extension_def is_action_tag_def
  dict_pop_def dict_update_def lstrip_bang_def hasattr_self_def hasattr_class_def hasattr_model_def
  is_descriptor_def class_body_names_def init_attr_names_def action_choices_def

lemmas load_defs = load_instance_def construct_def lookup_or_create_def objects_get_def
  row_matches_def value_matches_def same_row_def map_query_values_def create_child_def

lemmas update_defs = update_fields_def assign_field_def apply_custom_fields_def
  simple_field_set_def hasattr_instance_def attributes_item_0_def

lemmas save_defs = save_def save_instance_def db_save_def refresh_from_db_def
  journal_log_node_def journal_log_def index_add_def

text \<open>
  The test of \<^verbatim>\<open>self._action\<close> against \<^verbatim>\<open>args[0]\<close> comes after
  \<^verbatim>\<open>self._action = args[0]\<close>, so the branch for an action tag never raises the
  error for two actions.
\<close>

lemma set_action_never_conflicts:
  "set_action args v n \<noteq> Inl (DesignImplementationError (OnlyOneAction a b))"
  by (auto simp: set_action_def Let_def split: list.splits)


text \<open>
  C3 fails on the code. A region node \<^verbatim>\<open>{"!get:slug": "us-east", "name": "x"}\<close>
  with action GET and one field assignment is constructed without error, and the field
  is set on the instance that was looked up.
\<close>

theorem get_with_one_field:
  "(case new_model_instance 3 demo_env demo_region
           [(''!get:slug'', VStr ''us-east''), (''name'', VStr ''x'')] None demo_state of
      Some (Inr n, s) \<Rightarrow>
        node_action n = Some ''get'' \<and> node_attributes n = [(''name'', VStr ''x'')]
        \<and> node_instance n =
            VModel ''Region'' (Some 1) [(''slug'', VStr ''us-east''), (''name'', VStr ''x'')] []
    | _ \<Rightarrow> False)"
  by (simp add: parse_defs load_defs update_defs demo_defs numeral_3_eq_3)

text \<open>
  C7 fails on the code. A site node \<^verbatim>\<open>{"custom_fields": {"floor": 1}}\<close> without
  field assignments is constructed with the custom field still unset: the instance has
  no custom field data.
\<close>

theorem custom_fields_without_fields:
  "(case new_model_instance 3 demo_env demo_site
           [(''custom_fields'', VDict [(''floor'', VInt 1)])] None empty_state of
      Some (Inr n, s) \<Rightarrow>
        node_custom_fields n = VDict [(''floor'', VInt 1)] \<and> node_attributes n = []
        \<and> node_instance n = VModel ''Site'' None [] []
    | _ \<Rightarrow> False)"
  by (simp add: parse_defs load_defs update_defs demo_defs numeral_3_eq_3)

text \<open>
  C1 fails on the code. The design \<^verbatim>\<open>{"sites": {"name": "HQ"}}\<close>, one CREATE
  node, is implemented with \<^verbatim>\<open>commit=True\<close> on an empty database: one site is
  created, and the Journal has its identity in \<open>updated\<close>, not in \<open>created\<close>.
\<close>

theorem pure_create_journal:
  "(case implement_design 3 demo_env [(''sites'', VDict [(''name'', VStr ''HQ'')])] True
           empty_state [] of
      Some (Inr u, s, evs) \<Rightarrow>
        db s = [VModel ''Site'' (Some 1) [(''name'', VStr ''HQ'')] []]
        \<and> created (journal s) = Map.empty
        \<and> updated (journal s) = [''Site'' \<mapsto> {Some 1}]
        \<and> index (journal s) = {Some 1}
    | _ \<Rightarrow> False)"
  by (simp add: implement_design_def create_objects_def create_object_def commit_def
      parse_defs load_defs update_defs save_defs demo_defs numeral_3_eq_3)

end
